theory Spec2Isabelle
  imports Main "HOL-Library.Word"
begin

section \<open>The host: what the header reads from the compiler and the target\<close>

text \<open>
  host.h is a compile-time mapping. Everything it asks of the platform is a
  \<^verbatim>\<open>sizeof\<close>, a member of \<^verbatim>\<open>std::numeric_limits\<close> or a
  predefined macro; one record holds these facts.
\<close>

record host =
  defined_GNUC :: bool
  defined_clang :: bool
  defined_SIZEOF_INT128 :: bool
  sizeof_float :: nat
  float_is_iec559 :: bool
  sizeof_double :: nat
  double_is_iec559 :: bool
  sizeof_long_double :: nat
  long_double_digits :: int
  long_double_max_exponent :: int

section \<open>Fortran types and host types\<close>

datatype TypeCategory = Integer | Real | Complex | Character | Logical

text \<open>
  The C++ types that stand in the place of a Fortran type argument:
  \<^verbatim>\<open>Type<CATEGORY, KIND>\<close>, \<^verbatim>\<open>void\<close> (the end of the
  NextBiggerReal chain) and \<^verbatim>\<open>UnknownType\<close> (no Fortran type for a host
  type).
\<close>

datatype ftn = Type TypeCategory int | Void | UnknownType

text \<open>
  The C++ types a HostTypeHelper can name. \<open>Scalar T\<close> is the Fortran scalar
  class of \<open>T\<close> itself, which is what Character kinds map to.
\<close>

datatype host_type =
    UnsupportedType
  | int8_t | int16_t | int32_t | int64_t | int128_t
  | float | double | long_double
  | std_complex host_type
  | uint8_t
  | Scalar ftn

text \<open>
  HostTypeHelper, its specialisations, and HostTypeExists. The Complex
  specialisation asks HostTypeExists of the Real type of the same kind, so the two
  are defined together. A parameter pack is a list.
\<close>

function HostType :: "host \<Rightarrow> ftn \<Rightarrow> host_type"
  and HostTypeExists :: "host \<Rightarrow> ftn list \<Rightarrow> bool"
where
  "HostType h (Type Integer KIND) =
     (if KIND = 1 then int8_t
      else if KIND = 2 then int16_t
      else if KIND = 4 then int32_t
      else if KIND = 8 then int64_t
      else if KIND = 16 then
        (if (defined_GNUC h \<or> defined_clang h) \<and> defined_SIZEOF_INT128 h
         then int128_t else UnsupportedType)
      else UnsupportedType)"
| "HostType h (Type Real KIND) =
     (if KIND = 4 then
        (if sizeof_float h = 4 \<and> float_is_iec559 h then float else UnsupportedType)
      else if KIND = 8 then
        (if sizeof_double h = 8 \<and> double_is_iec559 h then double else UnsupportedType)
      else if KIND = 10 then
        (if sizeof_long_double h \<ge> 10 \<and> long_double_digits h = 64 \<and>
            long_double_max_exponent h = 16384
         then long_double else UnsupportedType)
      else if KIND = 16 then
        (if sizeof_long_double h = 16 \<and> long_double_digits h = 113 \<and>
            long_double_max_exponent h = 16384
         then long_double else UnsupportedType)
      else UnsupportedType)"
| "HostType h (Type Complex KIND) =
     (let RealT = Type Real KIND
      in if HostTypeExists h [RealT] then std_complex (HostType h RealT)
         else UnsupportedType)"
| "HostType h (Type Logical KIND) =
     (if KIND \<le> 8 then uint8_t else UnsupportedType)"
| "HostType h (Type Character KIND) = Scalar (Type Character KIND)"
| "HostType h Void = UnsupportedType"
| "HostType h UnknownType = UnsupportedType"
| "HostTypeExists h [] = True"
| "HostTypeExists h (T # Ts) = (HostType h T \<noteq> UnsupportedType \<and> HostTypeExists h Ts)"
  by pat_completeness auto
termination
  by (relation "measure (\<lambda>a. case a of
         Inl (h, T) \<Rightarrow> (case T of Type Complex k \<Rightarrow> 5 | _ \<Rightarrow> 1)
       | Inr (h, Ts) \<Rightarrow> 1 + sum_list (map (\<lambda>T. case T of Type Complex k \<Rightarrow> 5 | _ \<Rightarrow> 1) Ts))")
     (auto split: ftn.splits TypeCategory.splits)

text \<open>
  BiggerOrSameHostTypeHelper: the primary template (lines 94-98) and its
  specialisations for Real and Complex (lines 231-249), which walk the
  NextBiggerReal chain. The helper's two members, \<^verbatim>\<open>Type\<close> and
  \<^verbatim>\<open>FortranType\<close>, are the two components of the result.
  \<^verbatim>\<open>std::conditional_t\<close> names both of its branches, so the chain is
  instantiated to its end whatever the host supports.
\<close>

definition NextBiggerReal :: "TypeCategory \<Rightarrow> int \<Rightarrow> ftn" where
  "NextBiggerReal cat KIND =
     (if KIND = 2 then Type cat 4
      else if KIND = 3 then Type cat 4
      else if KIND = 4 then Type cat 8
      else if KIND = 8 then Type cat 10
      else if KIND = 10 then Type cat 16
      else Void)"

fun chain_rank :: "ftn \<Rightarrow> nat" where
  "chain_rank (Type cat KIND) =
     (if KIND = 2 \<or> KIND = 3 then 5
      else if KIND = 4 then 4
      else if KIND = 8 then 3
      else if KIND = 10 then 2
      else 1)"
| "chain_rank Void = 0"
| "chain_rank UnknownType = 0"

function BiggerOrSameHostTypeHelper :: "host \<Rightarrow> ftn \<Rightarrow> host_type \<times> ftn" where
  "BiggerOrSameHostTypeHelper h (Type Real KIND) =
     (let T = Type Real KIND; NextT = NextBiggerReal Real KIND
      in (if HostTypeExists h [T] then HostType h T
          else fst (BiggerOrSameHostTypeHelper h NextT),
          if HostTypeExists h [T] then T
          else snd (BiggerOrSameHostTypeHelper h NextT)))"
| "BiggerOrSameHostTypeHelper h (Type Complex KIND) =
     (let T = Type Complex KIND; NextT = NextBiggerReal Complex KIND
      in (if HostTypeExists h [T] then HostType h T
          else fst (BiggerOrSameHostTypeHelper h NextT),
          if HostTypeExists h [T] then T
          else snd (BiggerOrSameHostTypeHelper h NextT)))"
| "BiggerOrSameHostTypeHelper h (Type Integer KIND) =
     (let T = Type Integer KIND
      in (if HostTypeExists h [T] then HostType h T else UnsupportedType, T))"
| "BiggerOrSameHostTypeHelper h (Type Logical KIND) =
     (let T = Type Logical KIND
      in (if HostTypeExists h [T] then HostType h T else UnsupportedType, T))"
| "BiggerOrSameHostTypeHelper h (Type Character KIND) =
     (let T = Type Character KIND
      in (if HostTypeExists h [T] then HostType h T else UnsupportedType, T))"
| "BiggerOrSameHostTypeHelper h Void =
     (if HostTypeExists h [Void] then HostType h Void else UnsupportedType, Void)"
| "BiggerOrSameHostTypeHelper h UnknownType =
     (if HostTypeExists h [UnknownType] then HostType h UnknownType else UnsupportedType,
      UnknownType)"
  by pat_completeness auto
termination
  by (relation "measure (\<lambda>(h, T). chain_rank T)") (auto simp: NextBiggerReal_def)

definition BiggerOrSameHostType :: "host \<Rightarrow> ftn \<Rightarrow> host_type" where
  "BiggerOrSameHostType h FTN_T = fst (BiggerOrSameHostTypeHelper h FTN_T)"

definition BiggerOrSameFortranTypeSupportedOnHost :: "host \<Rightarrow> ftn \<Rightarrow> ftn" where
  "BiggerOrSameFortranTypeSupportedOnHost h FTN_T = snd (BiggerOrSameHostTypeHelper h FTN_T)"

fun BiggerOrSameHostTypeExists :: "host \<Rightarrow> ftn list \<Rightarrow> bool" where
  "BiggerOrSameHostTypeExists h [] = True"
| "BiggerOrSameHostTypeExists h (T # Ts) =
     (BiggerOrSameHostType h T \<noteq> UnsupportedType \<and> BiggerOrSameHostTypeExists h Ts)"

text \<open>
  The promotion resolver as the specification words it, to be compared with the
  helper above: the chain of a Real or Complex kind is the kind itself followed by
  its successors (2 to 4, 3 to 4, 4 to 8, 8 to 10, 10 to 16); the other categories
  have no chain, only the kind itself. The resolver returns the first supported
  entry of the chain, or nothing when the chain is exhausted.
\<close>

definition chain_successor :: "int \<Rightarrow> int option" where
  "chain_successor w =
     (if w = 2 then Some 4 else if w = 3 then Some 4 else if w = 4 then Some 8
      else if w = 8 then Some 10 else if w = 10 then Some 16 else None)"

function promotion_chain :: "TypeCategory \<Rightarrow> int \<Rightarrow> ftn list" where
  "promotion_chain cat w =
     Type cat w #
     (if cat = Real \<or> cat = Complex then
        (case chain_successor w of
           Some w' \<Rightarrow> promotion_chain cat w'
         | None \<Rightarrow> [])
      else [])"
  by pat_completeness auto
termination
  by (relation "measure (\<lambda>(cat, w). chain_rank (Type cat w))")
     (auto simp: chain_successor_def split: if_splits)

declare promotion_chain.simps [simp del]

definition WidestUsable :: "host \<Rightarrow> TypeCategory \<Rightarrow> int \<Rightarrow> (host_type \<times> ftn) option" where
  "WidestUsable h cat w =
     (case find (\<lambda>T. HostTypeExists h [T]) (promotion_chain cat w) of
        Some T \<Rightarrow> Some (HostType h T, T)
      | None \<Rightarrow> None)"

section \<open>From host types back to Fortran types\<close>

text \<open>
  What stops the build: a \<^verbatim>\<open>static_assert\<close> that fails, and
  \<^verbatim>\<open>std::tuple_element_t\<close> at an index outside the tuple.
\<close>

datatype build_error = static_assert_failed | tuple_index_out_of_range

text \<open>
  Modelled from the spec: \<^verbatim>\<open>common::TypeIndex\<close> and
  \<^verbatim>\<open>common::MapTemplate\<close> are declared in the common template header and
  the tuple \<^verbatim>\<open>AllIntrinsicTypes\<close> in type.h, none of them among the
  sources. The inverse lookup is "built by inverting the forward table" and finds
  the entry that "targets hostRepr exactly": TypeIndex is the zero-based position
  of the first type of the list equal to the given one, or -1 when there is none;
  MapTemplate applies HostType to each member of the tuple. FortranTypeHelper
  takes the tuple AllIntrinsicTypes as a parameter.
\<close>

fun TypeIndex :: "'a \<Rightarrow> 'a list \<Rightarrow> int" where
  "TypeIndex A [] = - 1"
| "TypeIndex A (B # TYPES) =
     (if A = B then 0
      else (let i = TypeIndex A TYPES in if i < 0 then - 1 else i + 1))"

definition HostTypeMapping :: "host \<Rightarrow> ftn list \<Rightarrow> host_type list" where
  "HostTypeMapping h AllIntrinsicTypes = map (HostType h) AllIntrinsicTypes"

text \<open>
  FortranTypeHelper (lines 191-198). \<^verbatim>\<open>std::conditional_t\<close> names
  \<^verbatim>\<open>std::tuple_element_t<index, AllIntrinsicTypes>\<close> whatever the index
  is, so with the index -1 of a host type that no Fortran type maps to, the helper
  does not compile and UnknownType is never its result.
\<close>

definition FortranType :: "host \<Rightarrow> ftn list \<Rightarrow> host_type \<Rightarrow> build_error + ftn" where
  "FortranType h AllIntrinsicTypes HOST_T =
     (let index = TypeIndex HOST_T (HostTypeMapping h AllIntrinsicTypes)
      in if index \<ge> 0 then Inr (AllIntrinsicTypes ! nat index)
         else Inl tuple_index_out_of_range)"

text \<open>
  Modelled from the spec: the members of the tuple AllIntrinsicTypes are left to
  "the language's type system". For evaluation, this tuple holds the widths that
  the header and the specification name, the categories in the order Integer,
  Real, Complex, Character, Logical.
\<close>

definition AllIntrinsicTypes :: "ftn list" where
  "AllIntrinsicTypes =
     map (Type Integer) [1, 2, 4, 8, 16] @
     map (Type Real) [2, 3, 4, 8, 10, 16] @
     map (Type Complex) [2, 3, 4, 8, 10, 16] @
     map (Type Character) [1, 2, 4] @
     map (Type Logical) [1, 2, 4, 8]"

text \<open>Two hosts for evaluation: x86-64 with GCC, and a host whose long double is
  IEEE-754 binary128 and whose double is not IEC 559.\<close>

definition x86_64_gcc :: host where
  "x86_64_gcc =
     \<lparr>defined_GNUC = True, defined_clang = False, defined_SIZEOF_INT128 = True,
      sizeof_float = 4, float_is_iec559 = True,
      sizeof_double = 8, double_is_iec559 = True,
      sizeof_long_double = 16, long_double_digits = 64,
      long_double_max_exponent = 16384\<rparr>"

definition quad_host :: host where
  "quad_host =
     \<lparr>defined_GNUC = True, defined_clang = False, defined_SIZEOF_INT128 = True,
      sizeof_float = 4, float_is_iec559 = True,
      sizeof_double = 8, double_is_iec559 = False,
      sizeof_long_double = 16, long_double_digits = 113,
      long_double_max_exponent = 16384\<rparr>"

section \<open>Scalar conversions\<close>

text \<open>
  An object is its object representation, a list of bytes. Both casts take their
  argument by reference and designate it through a \<^verbatim>\<open>reinterpret_cast\<close>
  to a pointer to the result type: the object designated has as many bytes as the
  result type, starting at the first byte of the argument. When the result type is
  the smaller one it ends inside the argument; when it is the larger one it runs
  on into the memory behind the argument, which is given here as a function from
  the offset behind the argument to the byte found there.
\<close>

type_synonym byte = "8 word"

definition reinterpret_read :: "nat \<Rightarrow> byte list \<Rightarrow> (nat \<Rightarrow> byte) \<Rightarrow> byte list" where
  "reinterpret_read n obj behind = take n (obj @ map behind [0..<n])"

text \<open>
  What a cast finds in memory and does not control: the memory behind its
  argument, the memory behind the two temporaries that the piecewise path makes for
  the real and the imaginary part, and the bytes that are left in the padding of
  a host value once it has been returned by value (by offset in the object).
\<close>

record behind =
  behind_x :: "nat \<Rightarrow> byte"
  behind_real :: "nat \<Rightarrow> byte"
  behind_imag :: "nat \<Rightarrow> byte"
  padding :: "nat \<Rightarrow> byte"

text \<open>
  Modelled from the spec: the classes \<^verbatim>\<open>Scalar<T>\<close> are declared in
  type.h, which is not among the sources. Their sizes are a parameter \<open>sz\<close>, but
  for Complex: a Complex scalar is made of "real and imaginary source scalars", each
  a scalar of the Real type of the same kind (\<^verbatim>\<open>FTN_T::Part\<close>), the real
  part first. A scalar has no padding: a copy of it has all its bytes.
  \<^verbatim>\<open>std::complex<T>\<close> has the layout of an array of two
  \<^verbatim>\<open>T\<close>, and an empty struct has size 1.
\<close>

fun sizeof_Scalar :: "(ftn \<Rightarrow> nat) \<Rightarrow> ftn \<Rightarrow> nat" where
  "sizeof_Scalar sz (Type Complex KIND) = 2 * sz (Type Real KIND)"
| "sizeof_Scalar sz T = sz T"

fun sizeof_HostType :: "host \<Rightarrow> (ftn \<Rightarrow> nat) \<Rightarrow> host_type \<Rightarrow> nat" where
  "sizeof_HostType h sz UnsupportedType = 1"
| "sizeof_HostType h sz int8_t = 1"
| "sizeof_HostType h sz int16_t = 2"
| "sizeof_HostType h sz int32_t = 4"
| "sizeof_HostType h sz int64_t = 8"
| "sizeof_HostType h sz int128_t = 16"
| "sizeof_HostType h sz float = sizeof_float h"
| "sizeof_HostType h sz double = sizeof_double h"
| "sizeof_HostType h sz long_double = sizeof_long_double h"
| "sizeof_HostType h sz (std_complex t) = 2 * sizeof_HostType h sz t"
| "sizeof_HostType h sz uint8_t = 1"
| "sizeof_HostType h sz (Scalar T) = sizeof_Scalar sz T"

text \<open>
  Both casts return their result by value, and a host value that is returned by
  value keeps the bytes of its value only. The one host type of the header with
  bytes that are not part of the value is the long double of the "X87 80bits"
  profile (line 153: 64 digits, maximal exponent 16384), which is "usually padded
  to 12 or 16bytes" (line 70): its value is in the first 10 bytes, and what the
  padding of the result holds is not determined by the cast. A host complex
  number is two such values, each with its own padding.
\<close>

definition X87_80bits :: "host \<Rightarrow> bool" where
  "X87_80bits h \<longleftrightarrow> long_double_digits h = 64 \<and> long_double_max_exponent h = 16384"

fun by_value :: "host \<Rightarrow> (ftn \<Rightarrow> nat) \<Rightarrow> host_type \<Rightarrow> (nat \<Rightarrow> byte) \<Rightarrow> byte list \<Rightarrow> byte list"
where
  "by_value h sz long_double pad obj =
     (if X87_80bits h then take 10 obj @ map pad [10..<length obj] else obj)"
| "by_value h sz (std_complex t) pad obj =
     by_value h sz t pad (take (sizeof_HostType h sz t) obj) @
     by_value h sz t (\<lambda>i. pad (sizeof_HostType h sz t + i)) (drop (sizeof_HostType h sz t) obj)"
| "by_value h sz t pad obj = obj"


fun category :: "ftn \<Rightarrow> TypeCategory option" where
  "category (Type cat KIND) = Some cat"
| "category T = None"

fun Part :: "ftn \<Rightarrow> ftn" where
  "Part (Type cat KIND) = Type Real KIND"
| "Part T = T"

text \<open>
  The two halves of a Complex scalar, \<^verbatim>\<open>x.REAL()\<close> and
  \<^verbatim>\<open>x.AIMAG()\<close>, and the scalar made of two halves,
  \<^verbatim>\<open>Scalar<FTN_T>{re, im}\<close>.
\<close>

definition REAL :: "(ftn \<Rightarrow> nat) \<Rightarrow> ftn \<Rightarrow> byte list \<Rightarrow> byte list" where
  "REAL sz FTN_T x = take (sizeof_Scalar sz (Part FTN_T)) x"

definition AIMAG :: "(ftn \<Rightarrow> nat) \<Rightarrow> ftn \<Rightarrow> byte list \<Rightarrow> byte list" where
  "AIMAG sz FTN_T x =
     take (sizeof_Scalar sz (Part FTN_T)) (drop (sizeof_Scalar sz (Part FTN_T)) x)"

definition two_parts :: "byte list \<Rightarrow> byte list \<Rightarrow> byte list" where
  "two_parts re im = re @ im"

text \<open>
  The two halves of a host complex number, \<^verbatim>\<open>std::real(x)\<close> and
  \<^verbatim>\<open>std::imag(x)\<close>, each returned by value, and the host complex number
  made of two host values, \<^verbatim>\<open>HostType<FTN_T>{re, im}\<close>, returned by
  value.
\<close>

definition std_real ::
  "host \<Rightarrow> (ftn \<Rightarrow> nat) \<Rightarrow> ftn \<Rightarrow> (nat \<Rightarrow> byte) \<Rightarrow> byte list \<Rightarrow> byte list" where
  "std_real h sz FTN_T pad x =
     by_value h sz (HostType h (Part FTN_T)) pad
       (take (sizeof_HostType h sz (HostType h (Part FTN_T))) x)"

definition std_imag ::
  "host \<Rightarrow> (ftn \<Rightarrow> nat) \<Rightarrow> ftn \<Rightarrow> (nat \<Rightarrow> byte) \<Rightarrow> byte list \<Rightarrow> byte list" where
  "std_imag h sz FTN_T pad x =
     by_value h sz (HostType h (Part FTN_T))
       (\<lambda>i. pad (sizeof_HostType h sz (HostType h (Part FTN_T)) + i))
       (take (sizeof_HostType h sz (HostType h (Part FTN_T)))
          (drop (sizeof_HostType h sz (HostType h (Part FTN_T))) x))"

definition host_complex ::
  "host \<Rightarrow> (ftn \<Rightarrow> nat) \<Rightarrow> ftn \<Rightarrow> (nat \<Rightarrow> byte) \<Rightarrow> byte list \<Rightarrow> byte list \<Rightarrow> byte list" where
  "host_complex h sz FTN_T pad re im = by_value h sz (HostType h FTN_T) pad (re @ im)"

text \<open>The \<^verbatim>\<open>static_assert\<close> of a cast stops the build.\<close>

definition piecewise :: "host \<Rightarrow> (ftn \<Rightarrow> nat) \<Rightarrow> ftn \<Rightarrow> bool" where
  "piecewise h sz FTN_T \<longleftrightarrow>
     category FTN_T = Some Complex \<and>
     sizeof_Scalar sz FTN_T \<noteq> sizeof_HostType h sz (HostType h FTN_T)"

function CastHostToFortran ::
  "host \<Rightarrow> (ftn \<Rightarrow> nat) \<Rightarrow> ftn \<Rightarrow> behind \<Rightarrow> byte list \<Rightarrow> build_error + byte list"
where
  "CastHostToFortran h sz FTN_T m x =
     (if \<not> HostTypeExists h [FTN_T] then Inl static_assert_failed
      else if piecewise h sz FTN_T then
        (case CastHostToFortran h sz (Part FTN_T) (m\<lparr>behind_x := behind_real m\<rparr>)
                (std_real h sz FTN_T (padding m) x) of
           Inl e \<Rightarrow> Inl e
         | Inr re \<Rightarrow>
             (case CastHostToFortran h sz (Part FTN_T) (m\<lparr>behind_x := behind_imag m\<rparr>)
                     (std_imag h sz FTN_T (padding m) x) of
                Inl e \<Rightarrow> Inl e
              | Inr im \<Rightarrow> Inr (two_parts re im)))
      else Inr (reinterpret_read (sizeof_Scalar sz FTN_T) x (behind_x m)))"
  by pat_completeness auto
termination
  by (relation "measure (\<lambda>(h, sz, FTN_T, m, x). if category FTN_T = Some Complex then 1 else 0)")
     (auto simp: piecewise_def elim: category.elims)

declare CastHostToFortran.simps [simp del]

function CastFortranToHost ::
  "host \<Rightarrow> (ftn \<Rightarrow> nat) \<Rightarrow> ftn \<Rightarrow> behind \<Rightarrow> byte list \<Rightarrow> build_error + byte list"
where
  "CastFortranToHost h sz FTN_T m x =
     (if \<not> HostTypeExists h [FTN_T] then Inl static_assert_failed
      else if piecewise h sz FTN_T then
        (case CastFortranToHost h sz (Part FTN_T) (m\<lparr>behind_x := behind_real m\<rparr>)
                (REAL sz FTN_T x) of
           Inl e \<Rightarrow> Inl e
         | Inr re \<Rightarrow>
             (case CastFortranToHost h sz (Part FTN_T) (m\<lparr>behind_x := behind_imag m\<rparr>)
                     (AIMAG sz FTN_T x) of
                Inl e \<Rightarrow> Inl e
              | Inr im \<Rightarrow> Inr (host_complex h sz FTN_T (padding m) re im)))
      else Inr (by_value h sz (HostType h FTN_T) (padding m)
                  (reinterpret_read (sizeof_HostType h sz (HostType h FTN_T)) x (behind_x m))))"
  by pat_completeness auto
termination
  by (relation "measure (\<lambda>(h, sz, FTN_T, m, x). if category FTN_T = Some Complex then 1 else 0)")
     (auto simp: piecewise_def elim: category.elims)

declare CastFortranToHost.simps [simp del]

text \<open>
  Modelled from the spec: the size of a scalar for evaluation. The kind of a type
  is its width, and the specification counts widths in bytes ("a 4-byte integer
  encoding and a 4-byte real encoding"): a scalar of kind \<open>w\<close> has \<open>w\<close> bytes.
\<close>

fun size_is_kind :: "ftn \<Rightarrow> nat" where
  "size_is_kind (Type cat KIND) = nat KIND"
| "size_is_kind T = 1"

definition zeros_behind :: behind where
  "zeros_behind =
     \<lparr>behind_x = (\<lambda>i. 0), behind_real = (\<lambda>i. 0), behind_imag = (\<lambda>i. 0),
      padding = (\<lambda>i. 0)\<rparr>"

section \<open>The floating-point environment guard\<close>

text \<open>
  Modelled from the spec: host.h declares class HostFloatingPointEnvironment with
  its two saved environments, \<^verbatim>\<open>originalFenv_\<close> and
  \<^verbatim>\<open>currentFenv_\<close>; the bodies of its two member functions are in a source
  file that is not among the sources. They are modelled from the state machine of
  the specification. An environment is "host rounding mode + trap mask + status
  flags". SetUp "captures current FPEnvironmentSnapshot, clears pending status
  flags, installs the trap/rounding configuration requested by the folding
  context". CheckAndRestore "reads accumulated status flags (overflow, underflow,
  invalid, inexact, divide-by-zero) since SetUp, reports the set of raised flags to
  the folding context, restores the snapshot captured at SetUp". Between the two, a
  host operation raises status flags, which stay raised until they are cleared.
\<close>

datatype fp_flag = Overflow | Underflow | Invalid | Inexact | DivideByZero

datatype rounding = TiesToEven | ToZero | Down | Up | TiesAwayFromZero

record fenv_t =
  rounding_mode :: rounding
  trap_mask :: "fp_flag set"
  status_flags :: "fp_flag set"

text \<open>The members \<^verbatim>\<open>originalFenv_\<close> and \<^verbatim>\<open>currentFenv_\<close>, without
  the trailing underscore.\<close>

record HostFloatingPointEnvironment =
  originalFenv :: fenv_t
  currentFenv :: fenv_t

record FoldingContext =
  requested_rounding :: rounding
  requested_traps :: "fp_flag set"
  reported_flags :: "fp_flag set list"

text \<open>The state the two member functions work on: the guard object, the
  environment of the host, and the folding context.\<close>

record fp_state =
  guard :: HostFloatingPointEnvironment
  host_fenv :: fenv_t
  folding_context :: FoldingContext

definition SetUpHostFloatingPointEnvironment :: "fp_state \<Rightarrow> fp_state" where
  "SetUpHostFloatingPointEnvironment s =
     (let snapshot = host_fenv s;
          installed = \<lparr>rounding_mode = requested_rounding (folding_context s),
                       trap_mask = requested_traps (folding_context s),
                       status_flags = {}\<rparr>
      in s\<lparr>guard := \<lparr>originalFenv = snapshot, currentFenv = installed\<rparr>,
            host_fenv := installed\<rparr>)"

definition CheckAndRestoreFloatingPointEnvironment :: "fp_state \<Rightarrow> fp_state" where
  "CheckAndRestoreFloatingPointEnvironment s =
     (let raised = status_flags (host_fenv s)
      in s\<lparr>folding_context :=
              (folding_context s)\<lparr>reported_flags :=
                                    reported_flags (folding_context s) @ [raised]\<rparr>,
            host_fenv := originalFenv (guard s)\<rparr>)"

definition raise_flags :: "fp_flag set \<Rightarrow> fp_state \<Rightarrow> fp_state" where
  "raise_flags F s = s\<lparr>host_fenv := (host_fenv s)\<lparr>status_flags := status_flags (host_fenv s) \<union> F\<rparr>\<rparr>"

definition host_operations :: "fp_flag set list \<Rightarrow> fp_state \<Rightarrow> fp_state" where
  "host_operations Fs s = fold raise_flags Fs s"

section \<open>The forward mapping\<close>

lemma HostTypeExists_single:
  "HostTypeExists h [T] \<longleftrightarrow> HostType h T \<noteq> UnsupportedType"
  by simp

lemma HostTypeExists_Complex_Real:
  "HostTypeExists h [Type Complex w] = HostTypeExists h [Type Real w]"
  by (simp add: Let_def)

text \<open>
  C3. For every width \<open>w\<close>, the Complex kind of width \<open>w\<close> has a host type if and
  only if the Real kind of width \<open>w\<close> has one, and then its host type is
  \<^verbatim>\<open>std::complex\<close> of the host type of Real(\<open>w\<close>).
\<close>

theorem Complex_exists_iff_Real_exists:
  "HostTypeExists h [Type Complex w] = HostTypeExists h [Type Real w] \<and>
   (HostTypeExists h [Type Real w] \<longrightarrow>
      HostType h (Type Complex w) = std_complex (HostType h (Type Real w)))"
  by (simp add: Let_def)

theorem Complex_exists_iff_Real_exists_witness:
  "HostTypeExists x86_64_gcc [Type Real 8] \<and>
   HostTypeExists x86_64_gcc [Type Complex 8] \<and>
   HostType x86_64_gcc (Type Complex 8) = std_complex double"
  using Complex_exists_iff_Real_exists [of x86_64_gcc 8]
  by (simp add: x86_64_gcc_def)

text \<open>
  C6. A Real kind has a host type exactly when the native type of that width
  matches the profile asked of it: Real(4) when float has 4 bytes and is IEC 559,
  Real(8) when double has 8 bytes and is IEC 559, Real(10) when long double has at
  least 10 bytes, 64 digits and maximal exponent 16384, Real(16) when long double
  has exactly 16 bytes, 113 digits and maximal exponent 16384. Real(2) and Real(3)
  have none on any host.
\<close>

theorem Real_exists_iff_host_profile:
  "(HostTypeExists h [Type Real 4] \<longleftrightarrow> sizeof_float h = 4 \<and> float_is_iec559 h) \<and>
   (HostTypeExists h [Type Real 8] \<longleftrightarrow> sizeof_double h = 8 \<and> double_is_iec559 h) \<and>
   (HostTypeExists h [Type Real 10] \<longleftrightarrow>
      sizeof_long_double h \<ge> 10 \<and> long_double_digits h = 64 \<and>
      long_double_max_exponent h = 16384) \<and>
   (HostTypeExists h [Type Real 16] \<longleftrightarrow>
      sizeof_long_double h = 16 \<and> long_double_digits h = 113 \<and>
      long_double_max_exponent h = 16384) \<and>
   \<not> HostTypeExists h [Type Real 2] \<and> \<not> HostTypeExists h [Type Real 3]"
  by simp

text \<open>
  C7. A Logical kind of width \<open>w\<close> has a host type if and only if \<open>w \<le> 8\<close>; the
  host type is then \<^verbatim>\<open>std::uint8_t\<close>, and a wider Logical kind maps to
  UnsupportedType.
\<close>

theorem Logical_exists_iff_le_8:
  "(HostTypeExists h [Type Logical w] \<longleftrightarrow> w \<le> 8) \<and>
   HostType h (Type Logical w) = (if w \<le> 8 then uint8_t else UnsupportedType)"
  by simp

text \<open>
  C10. On one host, Real(10) and Real(16) never both have a host type: both are
  long double, with 64 digits for the one and 113 for the other.
\<close>

theorem Real_10_and_Real_16_exclusive:
  "\<not> (HostTypeExists h [Type Real 10] \<and> HostTypeExists h [Type Real 16])"
  by simp

section \<open>The promotion resolver\<close>

lemma Helper_unfold:
  assumes "cat = Real \<or> cat = Complex"
  shows "BiggerOrSameHostTypeHelper h (Type cat k) =
     (if HostTypeExists h [Type cat k] then (HostType h (Type cat k), Type cat k)
      else BiggerOrSameHostTypeHelper h (NextBiggerReal cat k))"
  using assms by (auto simp: Let_def simp del: HostType.simps HostTypeExists.simps)

lemma Helper_Void: "BiggerOrSameHostTypeHelper h Void = (UnsupportedType, Void)"
  by simp

lemma WidestUsable_unfold:
  "WidestUsable h cat w =
     (if HostTypeExists h [Type cat w] then Some (HostType h (Type cat w), Type cat w)
      else if cat = Real \<or> cat = Complex then
        (case chain_successor w of Some w' \<Rightarrow> WidestUsable h cat w' | None \<Rightarrow> None)
      else None)"
  unfolding WidestUsable_def
  by (subst promotion_chain.simps)
     (simp split: option.splits del: HostType.simps HostTypeExists.simps)

lemma NextBiggerReal_successor:
  "NextBiggerReal cat w = (case chain_successor w of Some w' \<Rightarrow> Type cat w' | None \<Rightarrow> Void)"
  by (simp add: NextBiggerReal_def chain_successor_def)

text \<open>The helper of the header computes what the resolver of the specification
  describes: computation induction along the chain.\<close>

lemma Helper_is_WidestUsable:
  assumes "cat = Real \<or> cat = Complex"
  shows "BiggerOrSameHostTypeHelper h (Type cat k) =
     (case WidestUsable h cat k of Some r \<Rightarrow> r | None \<Rightarrow> (UnsupportedType, Void))"
  using assms
proof (induction cat k rule: promotion_chain.induct)
  case (1 cat w)
  note rc = 1(2)
  show ?case
  proof (cases "HostTypeExists h [Type cat w]")
    case True
    then show ?thesis
      by (subst WidestUsable_unfold)
         (simp add: Helper_unfold [OF rc] del: HostType.simps HostTypeExists.simps)
  next
    case False
    show ?thesis
    proof (cases "chain_successor w")
      case None
      then show ?thesis using False rc
        by (subst WidestUsable_unfold)
           (simp add: Helper_unfold [OF rc] NextBiggerReal_successor Helper_Void
                 del: HostType.simps HostTypeExists.simps BiggerOrSameHostTypeHelper.simps)
    next
      case (Some w')
      have "BiggerOrSameHostTypeHelper h (Type cat w') =
         (case WidestUsable h cat w' of Some r \<Rightarrow> r | None \<Rightarrow> (UnsupportedType, Void))"
        using 1(1)[OF rc Some rc] .
      then show ?thesis using False rc Some
        by (subst WidestUsable_unfold)
           (simp add: Helper_unfold [OF rc] NextBiggerReal_successor
                 del: HostType.simps HostTypeExists.simps BiggerOrSameHostTypeHelper.simps)
    qed
  qed
qed

text \<open>
  C4. For a Real or Complex kind \<open>k\<close>: when \<open>k\<close> has a host type, the resolver
  returns that host type and \<open>k\<close> itself; otherwise it goes on with the successor of
  \<open>k\<close> in the chain 2 to 4, 3 to 4, 4 to 8, 8 to 10, 10 to 16; altogether it returns
  the first supported entry of the chain, or UnsupportedType (and
  \<^verbatim>\<open>void\<close> for the Fortran type) when the chain is exhausted. On a host
  without width 10 and with width 16, an unsupported width 8 promotes to width 16.
\<close>

theorem BiggerOrSame_Real_Complex_follows_chain:
  assumes "cat = Real \<or> cat = Complex"
  shows "(HostTypeExists h [Type cat k] \<longrightarrow>
            BiggerOrSameHostType h (Type cat k) = HostType h (Type cat k) \<and>
            BiggerOrSameFortranTypeSupportedOnHost h (Type cat k) = Type cat k) \<and>
         (\<not> HostTypeExists h [Type cat k] \<longrightarrow>
            BiggerOrSameHostTypeHelper h (Type cat k) =
            BiggerOrSameHostTypeHelper h (NextBiggerReal cat k)) \<and>
         BiggerOrSameHostTypeHelper h (Type cat k) =
           (case WidestUsable h cat k of Some r \<Rightarrow> r | None \<Rightarrow> (UnsupportedType, Void)) \<and>
         (\<not> HostTypeExists h [Type cat 8] \<and> \<not> HostTypeExists h [Type cat 10] \<and>
          HostTypeExists h [Type cat 16] \<longrightarrow>
            BiggerOrSameHostType h (Type cat 8) = HostType h (Type cat 16) \<and>
            BiggerOrSameFortranTypeSupportedOnHost h (Type cat 8) = Type cat 16)"
proof -
  note u = Helper_unfold [OF assms]
  have a: "HostTypeExists h [Type cat k] \<longrightarrow>
            BiggerOrSameHostType h (Type cat k) = HostType h (Type cat k) \<and>
            BiggerOrSameFortranTypeSupportedOnHost h (Type cat k) = Type cat k"
    by (simp add: BiggerOrSameHostType_def BiggerOrSameFortranTypeSupportedOnHost_def u
             del: HostType.simps HostTypeExists.simps BiggerOrSameHostTypeHelper.simps)
  have b: "\<not> HostTypeExists h [Type cat k] \<longrightarrow>
            BiggerOrSameHostTypeHelper h (Type cat k) =
            BiggerOrSameHostTypeHelper h (NextBiggerReal cat k)"
    by (simp add: u del: HostType.simps HostTypeExists.simps BiggerOrSameHostTypeHelper.simps)
  have d: "\<not> HostTypeExists h [Type cat 8] \<and> \<not> HostTypeExists h [Type cat 10] \<and>
          HostTypeExists h [Type cat 16] \<longrightarrow>
            BiggerOrSameHostType h (Type cat 8) = HostType h (Type cat 16) \<and>
            BiggerOrSameFortranTypeSupportedOnHost h (Type cat 8) = Type cat 16"
    by (simp add: BiggerOrSameHostType_def BiggerOrSameFortranTypeSupportedOnHost_def u
                  NextBiggerReal_def
             del: HostType.simps HostTypeExists.simps BiggerOrSameHostTypeHelper.simps)
  show ?thesis using a b d Helper_is_WidestUsable [OF assms] by blast
qed

theorem BiggerOrSame_Real_Complex_follows_chain_witness:
  "(Real = Real \<or> Real = Complex) \<and>
   \<not> HostTypeExists quad_host [Type Real 8] \<and> \<not> HostTypeExists quad_host [Type Real 10] \<and>
   HostTypeExists quad_host [Type Real 16] \<and>
   BiggerOrSameHostType quad_host (Type Real 8) = long_double \<and>
   BiggerOrSameFortranTypeSupportedOnHost quad_host (Type Real 8) = Type Real 16"
proof -
  have e: "\<not> HostTypeExists quad_host [Type Real 8] \<and>
           \<not> HostTypeExists quad_host [Type Real 10] \<and>
           HostTypeExists quad_host [Type Real 16]"
    by (simp add: quad_host_def)
  have "BiggerOrSameHostType quad_host (Type Real 8) = HostType quad_host (Type Real 16) \<and>
        BiggerOrSameFortranTypeSupportedOnHost quad_host (Type Real 8) = Type Real 16"
    using BiggerOrSame_Real_Complex_follows_chain [of Real quad_host 8] e by blast
  then show ?thesis using e by (simp add: quad_host_def)
qed

text \<open>
  C5. An Integer, Logical or Character kind is never promoted: the resolver gives
  its host type when there is one and UnsupportedType otherwise, and the Fortran
  type it gives is always the kind itself.
\<close>

theorem BiggerOrSame_never_promotes_other_categories:
  assumes "cat = Integer \<or> cat = Logical \<or> cat = Character"
  shows "BiggerOrSameHostType h (Type cat k) =
           (if HostTypeExists h [Type cat k] then HostType h (Type cat k)
            else UnsupportedType) \<and>
         BiggerOrSameFortranTypeSupportedOnHost h (Type cat k) = Type cat k"
  using assms
  by (auto simp: BiggerOrSameHostType_def BiggerOrSameFortranTypeSupportedOnHost_def Let_def)

theorem BiggerOrSame_never_promotes_other_categories_witness:
  "(Integer = Integer \<or> Integer = Logical \<or> Integer = Character) \<and>
   \<not> HostTypeExists x86_64_gcc [Type Integer 3] \<and>
   BiggerOrSameHostType x86_64_gcc (Type Integer 3) = UnsupportedType \<and>
   BiggerOrSameFortranTypeSupportedOnHost x86_64_gcc (Type Integer 3) = Type Integer 3"
  using BiggerOrSame_never_promotes_other_categories [of Integer x86_64_gcc 3]
  by simp

section \<open>The inverse lookup\<close>

text \<open>The host type of a supported kind tells its category, and within a
  category other than Logical it tells the kind.\<close>

lemma HostType_tells_category:
  assumes "HostType h (Type cat k) \<noteq> UnsupportedType"
  shows "(case HostType h (Type cat k) of
            UnsupportedType \<Rightarrow> cat
          | int8_t \<Rightarrow> Integer | int16_t \<Rightarrow> Integer | int32_t \<Rightarrow> Integer
          | int64_t \<Rightarrow> Integer | int128_t \<Rightarrow> Integer
          | float \<Rightarrow> Real | double \<Rightarrow> Real | long_double \<Rightarrow> Real
          | std_complex t \<Rightarrow> Complex
          | uint8_t \<Rightarrow> Logical
          | Scalar T \<Rightarrow> Character) = cat"
  using assms by (cases cat) (simp_all add: Let_def)

lemma HostType_Integer_inj:
  assumes "HostType h (Type Integer k) \<noteq> UnsupportedType"
    and "HostType h (Type Integer k') = HostType h (Type Integer k)"
  shows "k' = k"
  using assms by (auto split: if_splits)

lemma HostType_Real_inj:
  assumes "HostType h (Type Real k) \<noteq> UnsupportedType"
    and "HostType h (Type Real k') = HostType h (Type Real k)"
  shows "k' = k"
  using assms by (auto split: if_splits)

lemma HostType_Complex_inj:
  assumes "HostType h (Type Complex k) \<noteq> UnsupportedType"
    and "HostType h (Type Complex k') = HostType h (Type Complex k)"
  shows "k' = k"
proof -
  have a: "HostType h (Type Real k) \<noteq> UnsupportedType"
    using assms(1) by (simp add: Let_def del: HostType.simps(2) split: if_splits)
  then have "HostType h (Type Complex k') = std_complex (HostType h (Type Real k))"
    using assms(2) by (simp add: Let_def del: HostType.simps(2))
  then have "HostType h (Type Real k') = HostType h (Type Real k)"
    by (simp add: Let_def del: HostType.simps(2) split: if_splits)
  then show ?thesis using a by (rule HostType_Real_inj [rotated])
qed

lemma HostType_same_category_inj:
  assumes "HostType h (Type cat k) \<noteq> UnsupportedType" and "cat \<noteq> Logical"
    and "HostType h (Type cat k') = HostType h (Type cat k)"
  shows "k' = k"
proof (cases cat)
  case Integer then show ?thesis using assms HostType_Integer_inj by blast
next
  case Real then show ?thesis using assms HostType_Real_inj by blast
next
  case Complex then show ?thesis using assms HostType_Complex_inj by blast
next
  case Character then show ?thesis using assms by simp
next
  case Logical then show ?thesis using assms by simp
qed

lemma HostType_other_category:
  assumes "HostType h (Type cat k) \<noteq> UnsupportedType"
    and "HostType h (Type cat' k') = HostType h (Type cat k)"
  shows "cat' = cat"
  using HostType_tells_category [of h cat k] HostType_tells_category [of h cat' k'] assms
  by (cases "HostType h (Type cat k)") (simp_all del: HostType.simps)

lemma HostType_inj:
  assumes "HostType h T \<noteq> UnsupportedType" and "category T \<noteq> Some Logical"
    and "HostType h T' = HostType h T"
  shows "T' = T"
proof (cases T)
  case T: (Type cat k)
  show ?thesis
  proof (cases T')
    case T': (Type cat' k')
    have "cat' = cat"
      using HostType_other_category [of h cat k cat' k'] assms(1,3) T T' by simp
    moreover have "k' = k"
      using HostType_same_category_inj [of h cat k k'] assms T T' calculation by simp
    ultimately show ?thesis using T T' by simp
  next
    case Void then show ?thesis using assms by simp
  next
    case UnknownType then show ?thesis using assms by simp
  qed
next
  case Void then show ?thesis using assms by simp
next
  case UnknownType then show ?thesis using assms by simp
qed


lemma TypeIndex_nonneg_iff: "TypeIndex A xs \<ge> 0 \<longleftrightarrow> A \<in> set xs"
  by (induction xs) (auto simp: Let_def)

lemma TypeIndex_find:
  "A \<in> set (map f xs) \<Longrightarrow>
     nat (TypeIndex A (map f xs)) < length xs \<and>
     find (\<lambda>x. f x = A) xs = Some (xs ! nat (TypeIndex A (map f xs)))"
proof (induction xs)
  case Nil
  then show ?case by simp
next
  case (Cons x xs)
  show ?case
  proof (cases "f x = A")
    case True
    then show ?thesis by auto
  next
    case False
    then have m: "A \<in> set (map f xs)" using Cons.prems by auto
    then have "TypeIndex A (map f xs) \<ge> 0" by (simp only: TypeIndex_nonneg_iff)
    then show ?thesis using False Cons.IH [OF m]
      by (auto simp: Let_def nat_add_distrib)
  qed
qed

lemma FortranType_is_first:
  assumes "T \<in> set tys"
  shows "\<exists>T1. find (\<lambda>T'. HostType h T' = HostType h T) tys = Some T1 \<and>
              FortranType h tys (HostType h T) = Inr T1"
proof -
  have m: "HostType h T \<in> set (map (HostType h) tys)" using assms by simp
  then have "TypeIndex (HostType h T) (map (HostType h) tys) \<ge> 0"
    by (simp only: TypeIndex_nonneg_iff)
  then show ?thesis using TypeIndex_find [OF m]
    by (simp add: FortranType_def HostTypeMapping_def Let_def del: HostType.simps)
qed

text \<open>
  C2, as amended. For every Fortran type \<open>T\<close> of the tuple AllIntrinsicTypes that
  has a host type, \<^verbatim>\<open>FortranType<HostType<T>>\<close> is the first type of the
  tuple whose host type is that of \<open>T\<close>. It is \<open>T\<close> itself whenever \<open>T\<close> is not a
  Logical kind: categories that share a byte width are told apart by their host
  types, so \<^verbatim>\<open>std::int32_t\<close> resolves to Integer(4) and
  \<^verbatim>\<open>float\<close> to Real(4). The Logical kinds of width at most 8 all share
  \<^verbatim>\<open>std::uint8_t\<close> and resolve to the first of them in the tuple.
\<close>

theorem FortranType_of_HostType:
  assumes "T \<in> set tys" and "HostTypeExists h [T]"
  shows "(\<exists>T1. find (\<lambda>T'. HostType h T' = HostType h T) tys = Some T1 \<and>
               FortranType h tys (HostType h T) = Inr T1) \<and>
         (category T \<noteq> Some Logical \<longrightarrow> FortranType h tys (HostType h T) = Inr T)"
proof -
  obtain T1 where f: "find (\<lambda>T'. HostType h T' = HostType h T) tys = Some T1"
    and r: "FortranType h tys (HostType h T) = Inr T1"
    using FortranType_is_first [OF assms(1)] by blast
  from f have "HostType h T1 = HostType h T"
    by (auto simp: find_Some_iff simp del: HostType.simps)
  then have "category T \<noteq> Some Logical \<longrightarrow> T1 = T"
    using HostType_inj [of h T T1] assms(2)
    by (auto simp del: HostType.simps simp: HostTypeExists_single)
  then show ?thesis using f r by auto
qed

theorem FortranType_of_HostType_witness:
  "Type Integer 4 \<in> set AllIntrinsicTypes \<and> HostTypeExists x86_64_gcc [Type Integer 4] \<and>
   Type Real 4 \<in> set AllIntrinsicTypes \<and> HostTypeExists x86_64_gcc [Type Real 4] \<and>
   FortranType x86_64_gcc AllIntrinsicTypes int32_t = Inr (Type Integer 4) \<and>
   FortranType x86_64_gcc AllIntrinsicTypes float = Inr (Type Real 4)"
  using FortranType_of_HostType [of "Type Integer 4" AllIntrinsicTypes x86_64_gcc]
        FortranType_of_HostType [of "Type Real 4" AllIntrinsicTypes x86_64_gcc]
  by (simp add: AllIntrinsicTypes_def x86_64_gcc_def)

text \<open>
  C2 as stated fails for a Logical kind: Logical(2) has the host type
  \<^verbatim>\<open>std::uint8_t\<close>, which is also the host type of Logical(1), and the
  inverse lookup gives Logical(1).
\<close>

theorem FortranType_of_HostType_Logical_counterexample:
  "HostTypeExists x86_64_gcc [Type Logical 2] \<and>
   Type Logical 2 \<in> set AllIntrinsicTypes \<and>
   HostType x86_64_gcc (Type Logical 2) = HostType x86_64_gcc (Type Logical 1) \<and>
   FortranType x86_64_gcc AllIntrinsicTypes (HostType x86_64_gcc (Type Logical 2)) =
     Inr (Type Logical 1) \<and>
   FortranType x86_64_gcc AllIntrinsicTypes (HostType x86_64_gcc (Type Logical 2)) \<noteq>
     Inr (Type Logical 2)"
  by (simp add: AllIntrinsicTypes_def x86_64_gcc_def FortranType_def HostTypeMapping_def Let_def)

section \<open>The scalar conversions\<close>

lemma length_reinterpret_read [simp]: "length (reinterpret_read n obj b) = n"
  by (simp add: reinterpret_read_def)



lemma Cast_static_assert:
  assumes "\<not> HostTypeExists h [T]"
  shows "CastFortranToHost h sz T m x = Inl static_assert_failed"
    and "CastHostToFortran h sz T m x = Inl static_assert_failed"
  using assms
  by (simp_all add: CastFortranToHost.simps [of h sz T] CastHostToFortran.simps [of h sz T]
               del: HostTypeExists.simps)

lemma Cast_direct:
  assumes "HostTypeExists h [T]" and "\<not> piecewise h sz T"
  shows "CastFortranToHost h sz T m x =
           Inr (by_value h sz (HostType h T) (padding m)
                  (reinterpret_read (sizeof_HostType h sz (HostType h T)) x (behind_x m)))"
    and "CastHostToFortran h sz T m x =
           Inr (reinterpret_read (sizeof_Scalar sz T) x (behind_x m))"
  using assms
  by (simp_all add: CastFortranToHost.simps [of h sz T] CastHostToFortran.simps [of h sz T]
               del: HostTypeExists.simps)

lemma piecewise_is_Complex:
  assumes "piecewise h sz T"
  obtains k where "T = Type Complex k"
  using assms by (cases T) (auto simp: piecewise_def)

lemma not_piecewise_Real [simp]: "\<not> piecewise h sz (Type Real k)"
  by (simp add: piecewise_def)

lemma Cast_piecewise:
  assumes "HostTypeExists h [Type Complex k]" and "piecewise h sz (Type Complex k)"
  shows "CastFortranToHost h sz (Type Complex k) m x =
           Inr (host_complex h sz (Type Complex k) (padding m)
             (by_value h sz (HostType h (Type Real k)) (padding m)
                (reinterpret_read (sizeof_HostType h sz (HostType h (Type Real k)))
                   (REAL sz (Type Complex k) x) (behind_real m)))
             (by_value h sz (HostType h (Type Real k)) (padding m)
                (reinterpret_read (sizeof_HostType h sz (HostType h (Type Real k)))
                   (AIMAG sz (Type Complex k) x) (behind_imag m))))"
    and "CastHostToFortran h sz (Type Complex k) m y =
           Inr (two_parts
             (reinterpret_read (sz (Type Real k))
                (std_real h sz (Type Complex k) (padding m) y) (behind_real m))
             (reinterpret_read (sz (Type Real k))
                (std_imag h sz (Type Complex k) (padding m) y) (behind_imag m)))"
proof -
  have r: "HostTypeExists h [Type Real k]"
    using assms(1) by (simp only: HostTypeExists_Complex_Real)
  show "CastFortranToHost h sz (Type Complex k) m x =
           Inr (host_complex h sz (Type Complex k) (padding m)
             (by_value h sz (HostType h (Type Real k)) (padding m)
                (reinterpret_read (sizeof_HostType h sz (HostType h (Type Real k)))
                   (REAL sz (Type Complex k) x) (behind_real m)))
             (by_value h sz (HostType h (Type Real k)) (padding m)
                (reinterpret_read (sizeof_HostType h sz (HostType h (Type Real k)))
                   (AIMAG sz (Type Complex k) x) (behind_imag m))))"
    using assms
    by (subst CastFortranToHost.simps)
       (simp add: Cast_direct(1) [OF r] del: HostTypeExists.simps HostType.simps)
  show "CastHostToFortran h sz (Type Complex k) m y =
           Inr (two_parts
             (reinterpret_read (sz (Type Real k))
                (std_real h sz (Type Complex k) (padding m) y) (behind_real m))
             (reinterpret_read (sz (Type Real k))
                (std_imag h sz (Type Complex k) (padding m) y) (behind_imag m)))"
    using assms
    by (subst CastHostToFortran.simps)
       (simp add: Cast_direct(2) [OF r] del: HostTypeExists.simps HostType.simps)
qed



text \<open>
  Where the long double is the X87 one in 16 bytes, a cast to the host returns the
  10 bytes of the value; the other 6 bytes of the result are not those found
  behind the value in the scalar.
\<close>

lemma X87_padding_is_not_carried:
  "HostTypeExists x86_64_gcc [Type Real 10] \<and>
   sizeof_HostType x86_64_gcc (\<lambda>T. 16) (HostType x86_64_gcc (Type Real 10)) = 16 \<and>
   CastFortranToHost x86_64_gcc (\<lambda>T. 16) (Type Real 10) zeros_behind (replicate 16 255) =
     Inr (replicate 10 255 @ replicate 6 0)"
  by (simp add: CastFortranToHost.simps piecewise_def reinterpret_read_def zeros_behind_def
                x86_64_gcc_def X87_80bits_def upt_conv_Cons replicate_Suc numeral_eq_Suc)




text \<open>
  C8. A cast for a kind without host type stops at its
  \<^verbatim>\<open>static_assert\<close>, when the program is built, and this is the only
  way a cast fails: for a kind with a host type both casts return a value.
\<close>

theorem Cast_fails_only_in_static_assert:
  "(\<not> HostTypeExists h [T] \<longrightarrow>
      CastFortranToHost h sz T m x = Inl static_assert_failed \<and>
      CastHostToFortran h sz T m y = Inl static_assert_failed) \<and>
   (HostTypeExists h [T] \<longrightarrow>
      (\<exists>r. CastFortranToHost h sz T m x = Inr r) \<and>
      (\<exists>r. CastHostToFortran h sz T m y = Inr r))"
proof (cases "HostTypeExists h [T]")
  case False
  then show ?thesis using Cast_static_assert [OF False] by simp
next
  case e: True
  show ?thesis
  proof (cases "piecewise h sz T")
    case False
    then show ?thesis using e by (simp add: Cast_direct [OF e False] del: HostTypeExists.simps)
  next
    case True
    then obtain k where T: "T = Type Complex k" by (rule piecewise_is_Complex)
    show ?thesis using e True Cast_piecewise [of h k sz] unfolding T by simp
  qed
qed

theorem Cast_fails_only_in_static_assert_witness:
  "\<not> HostTypeExists x86_64_gcc [Type Logical 16] \<and>
   CastFortranToHost x86_64_gcc size_is_kind (Type Logical 16) zeros_behind [] =
     Inl static_assert_failed \<and>
   CastHostToFortran x86_64_gcc size_is_kind (Type Logical 16) zeros_behind [] =
     Inl static_assert_failed \<and>
   HostTypeExists x86_64_gcc [Type Real 8] \<and>
   (\<exists>r. CastFortranToHost x86_64_gcc size_is_kind (Type Real 8) zeros_behind
           [1, 2, 3, 4, 5, 6, 7, 8] = Inr r) \<and>
   (\<exists>r. CastHostToFortran x86_64_gcc size_is_kind (Type Real 8) zeros_behind
           [1, 2, 3, 4, 5, 6, 7, 8] = Inr r)"
  using Cast_fails_only_in_static_assert [of x86_64_gcc "Type Logical 16" size_is_kind zeros_behind "[]" "[]"]
        Cast_fails_only_in_static_assert [of x86_64_gcc "Type Real 8" size_is_kind zeros_behind
              "[1, 2, 3, 4, 5, 6, 7, 8]" "[1, 2, 3, 4, 5, 6, 7, 8]"]
  by (simp add: x86_64_gcc_def)

section \<open>The guard\<close>

lemma host_operations_effect:
  "host_operations Fs s =
     s\<lparr>host_fenv := (host_fenv s)\<lparr>status_flags := status_flags (host_fenv s) \<union> \<Union> (set Fs)\<rparr>\<rparr>"
  unfolding host_operations_def
proof (induction Fs arbitrary: s)
  case Nil
  then show ?case by simp
next
  case (Cons F Fs)
  have "fold raise_flags (F # Fs) s = fold raise_flags Fs (raise_flags F s)"
    by simp
  also have "\<dots> = (raise_flags F s)\<lparr>host_fenv := (host_fenv (raise_flags F s))
      \<lparr>status_flags := status_flags (host_fenv (raise_flags F s)) \<union> \<Union> (set Fs)\<rparr>\<rparr>"
    by (rule Cons.IH)
  also have "\<dots> = s\<lparr>host_fenv := (host_fenv s)
      \<lparr>status_flags := status_flags (host_fenv s) \<union> \<Union> (set (F # Fs))\<rparr>\<rparr>"
    by (simp add: raise_flags_def Un_assoc)
  finally show ?case .
qed

text \<open>
  C9. After SetUpHostFloatingPointEnvironment, any host operations, and
  CheckAndRestoreFloatingPointEnvironment, the floating-point environment of the
  host is the one before the set-up, and the folding context has received the set
  of all status flags raised in between.
\<close>

theorem guard_restores_and_reports:
  "host_fenv (CheckAndRestoreFloatingPointEnvironment
               (host_operations Fs (SetUpHostFloatingPointEnvironment s))) = host_fenv s \<and>
   reported_flags (folding_context (CheckAndRestoreFloatingPointEnvironment
               (host_operations Fs (SetUpHostFloatingPointEnvironment s)))) =
     reported_flags (folding_context s) @ [\<Union> (set Fs)]"
  by (simp add: host_operations_effect SetUpHostFloatingPointEnvironment_def
                CheckAndRestoreFloatingPointEnvironment_def Let_def)



end
